theory Spec2Isabelle
  imports Complex_Main "HOL-Library.AList"
begin

section \<open>MWIS optimisation for forest thinning: the script as HOL functions\<close>

text \<open>
  The development follows \<^verbatim>\<open>tree_selection_mwis_optimizer.py\<close> section by section.
  The script's floating-point numbers are modelled as the real numbers (no rounding, no
  underflow, no NaN, no infinities), so a value computed here and the double the script
  computes can differ in the last digits, and a statement below is about the value the
  modelled function returns. The script's user parameter \<^verbatim>\<open>SPACING_M\<close> is an argument of the
  functions that read it. Reading the input file and writing the output files are not
  modelled: the model starts from the loaded table.
\<close>

subsection \<open>Haversine distance (lines 40-50)\<close>

definition radians :: "real \<Rightarrow> real" where
  "radians deg = deg * pi / 180"

definition R :: real where
  "R = 6371000"

definition haversine_m :: "real \<Rightarrow> real \<Rightarrow> real \<Rightarrow> real \<Rightarrow> real" where
  "haversine_m lat1 lon1 lat2 lon2 =
     (let dlat = lat2 - lat1;
          dlon = lon2 - lon1;
          a = (sin (dlat / 2))\<^sup>2 + cos lat1 * cos lat2 * (sin (dlon / 2))\<^sup>2
      in 2 * R * arcsin (sqrt a))"

text \<open>The argument \<open>a\<close> of the square root in \<open>haversine_m\<close>, named for the proofs.\<close>

definition hav_arg :: "real \<Rightarrow> real \<Rightarrow> real \<Rightarrow> real \<Rightarrow> real" where
  "hav_arg lat1 lon1 lat2 lon2 =
     (sin ((lat2 - lat1) / 2))\<^sup>2 + cos lat1 * cos lat2 * (sin ((lon2 - lon1) / 2))\<^sup>2"

subsection \<open>The input table\<close>

text \<open>
  A GeoDataFrame: one point per row (\<open>x\<close> the longitude, \<open>y\<close> the latitude, in degrees)
  and the other columns by name, in column order. In a data frame every column has one
  cell per row; a statement that reads a weight by its index says so. A cell is a number,
  a truth value or a text. Reading a text as a number is the work of Python's \<^verbatim>\<open>float\<close>,
  not of the script, so a text cell carries what \<^verbatim>\<open>float\<close> makes of it: the number, or
  nothing when \<^verbatim>\<open>float\<close> raises.
\<close>

datatype cell = FloatV real | IntV int | BoolV bool | TextV string "real option"

record geodataframe =
  geometry :: "(real \<times> real) list"
  columns :: "(string \<times> cell list) list"

definition len :: "geodataframe \<Rightarrow> nat" where
  "len gdf = length (geometry gdf)"

text \<open>\<^verbatim>\<open>coords = np.radians(np.c_[gdf.geometry.y.values, gdf.geometry.x.values])\<close>:
  one (latitude, longitude) row per point, in radians.\<close>

definition coords_of :: "geodataframe \<Rightarrow> (real \<times> real) list" where
  "coords_of gdf = map (\<lambda>(x, y). (radians y, radians x)) (geometry gdf)"

subsection \<open>Spatial conflict graph (lines 52-67)\<close>

text \<open>The distances from point \<open>i\<close> to the points \<open>i+1, i+2, ...\<close>, as the vectorised call
  computes them.\<close>

definition distances_from :: "(real \<times> real) list \<Rightarrow> nat \<Rightarrow> real list" where
  "distances_from coords i =
     map (\<lambda>p. haversine_m (fst (coords ! i)) (snd (coords ! i)) (fst p) (snd p))
       (drop (i + 1) coords)"

text \<open>\<^verbatim>\<open>np.where(di < SPACING_M)[0]\<close>: the positions of \<open>di\<close> below the threshold,
  ascending.\<close>

definition conflict_indices :: "real \<Rightarrow> real list \<Rightarrow> nat list" where
  "conflict_indices spacing_m di = filter (\<lambda>c. di ! c < spacing_m) [0..<length di]"

text \<open>The inner loop: \<^verbatim>\<open>neighbors[i].append(i + 1 + c)\<close> for each conflict index.\<close>

definition append_conflicts :: "nat \<Rightarrow> nat list \<Rightarrow> nat list list \<Rightarrow> nat list list" where
  "append_conflicts i cs neighbors =
     fold (\<lambda>c nb. nb[i := nb ! i @ [i + 1 + c]]) cs neighbors"

definition build_step :: "real \<Rightarrow> (real \<times> real) list \<Rightarrow> nat \<Rightarrow> nat list list \<Rightarrow> nat list list" where
  "build_step spacing_m coords i neighbors =
     append_conflicts i (conflict_indices spacing_m (distances_from coords i)) neighbors"

definition build_conflict_graph :: "real \<Rightarrow> (real \<times> real) list \<Rightarrow> nat list list" where
  "build_conflict_graph spacing_m coords =
     (let N = length coords
      in fold (build_step spacing_m coords) [0..<N] (replicate N []))"

text \<open>What one pass of the outer loop appends to \<open>neighbors[i]\<close>; the proofs show that the
  loop builds exactly these lists.\<close>

definition neighbors_of :: "real \<Rightarrow> (real \<times> real) list \<Rightarrow> nat \<Rightarrow> nat list" where
  "neighbors_of spacing_m coords i =
     map (\<lambda>c. i + 1 + c) (conflict_indices spacing_m (distances_from coords i))"

definition total_conflicts :: "nat list list \<Rightarrow> nat" where
  "total_conflicts neighbors = sum_list (map length neighbors)"

text \<open>The stored conflict pairs \<open>(i, j)\<close>, in the order the constraint loop visits them.\<close>

definition conflict_pairs :: "nat list list \<Rightarrow> (nat \<times> nat) list" where
  "conflict_pairs neighbors =
     concat (map (\<lambda>i. map (Pair i) (neighbors ! i)) [0..<length neighbors])"

subsection \<open>Optimisation weights (lines 69-78)\<close>

datatype error =
    ValueError string
  | Exception string
  | KeyError "string list"

text \<open>\<^verbatim>\<open>name in gdf.columns\<close> and \<^verbatim>\<open>gdf[name]\<close> for a column other than the geometry.\<close>

definition has_column :: "geodataframe \<Rightarrow> string \<Rightarrow> bool" where
  "has_column gdf name = (name \<in> set (map fst (columns gdf)))"

definition get_column :: "geodataframe \<Rightarrow> string \<Rightarrow> cell list option" where
  "get_column gdf name = map_of (columns gdf) name"

text \<open>
  \<^verbatim>\<open>gdf[name].to_numpy(float)\<close>: every cell as a number, or the \<^verbatim>\<open>ValueError\<close> of the first
  cell that has none. An integer is converted exactly here (the script rounds it to the
  nearest double). The message quotes the text as Python's \<^verbatim>\<open>repr\<close> does for a text
  without quotes, backslashes or control characters.
\<close>

definition quoted :: "string \<Rightarrow> string" where
  "quoted t = CHR 0x27 # t @ [CHR 0x27]"

fun to_float :: "cell \<Rightarrow> error + real" where
  "to_float (FloatV r) = Inr r"
| "to_float (IntV n) = Inr (of_int n)"
| "to_float (BoolV b) = Inr (if b then 1 else 0)"
| "to_float (TextV t (Some r)) = Inr r"
| "to_float (TextV t None) = Inl (ValueError (''could not convert string to float: '' @ quoted t))"

fun to_numpy_float :: "cell list \<Rightarrow> error + real list" where
  "to_numpy_float [] = Inr []"
| "to_numpy_float (c # cs) =
     (case to_float c of
        Inl e \<Rightarrow> Inl e
      | Inr r \<Rightarrow> (case to_numpy_float cs of Inl e \<Rightarrow> Inl e | Inr rs \<Rightarrow> Inr (r # rs)))"

text \<open>The column the script takes its weights from: \<open>W\<close> when the table has it, otherwise
  \<open>H_m\<close>.\<close>

definition weight_column :: "geodataframe \<Rightarrow> cell list option" where
  "weight_column gdf =
     (case get_column gdf ''W'' of Some col \<Rightarrow> Some col | None \<Rightarrow> get_column gdf ''H_m'')"

definition convertible :: "cell \<Rightarrow> bool" where
  "convertible c = (case c of TextV t None \<Rightarrow> False | _ \<Rightarrow> True)"

definition define_weights :: "geodataframe \<Rightarrow> error + real list" where
  "define_weights gdf =
     (case get_column gdf ''W'' of
        Some col \<Rightarrow> to_numpy_float col
      | None \<Rightarrow>
          (case get_column gdf ''H_m'' of
             Some col \<Rightarrow> to_numpy_float col
           | None \<Rightarrow>
               Inl (ValueError
                 ''Data must contain either 'W' or 'H_m' column for optimization.'')))"

subsection \<open>The linear solver's model (lines 80-95)\<close>

text \<open>
  The state of a \<^verbatim>\<open>pywraplp.Solver\<close> as the script fills it: the variables in creation
  order (a variable is referred to by its position), the objective and the constraints in
  the order they were added. A linear expression is a list of (coefficient, variable)
  terms; every constraint the script adds has the form \<open>expression \<le> bound\<close>.
\<close>

record variable =
  var_name :: string
  var_lb :: real
  var_ub :: real
  var_integer :: bool

type_synonym linear_expr = "(real \<times> nat) list"

record linear_constraint =
  con_expr :: linear_expr
  con_ub :: real

record mp_solver =
  variables :: "variable list"
  objective :: linear_expr
  maximization :: bool
  constraints :: "linear_constraint list"

definition new_solver :: mp_solver where
  "new_solver = \<lparr>variables = [], objective = [], maximization = False, constraints = []\<rparr>"

definition BoolVar :: "string \<Rightarrow> mp_solver \<Rightarrow> nat \<times> mp_solver" where
  "BoolVar name s =
     (length (variables s),
      s\<lparr>variables := variables s @
           [\<lparr>var_name = name, var_lb = 0, var_ub = 1, var_integer = True\<rparr>]\<rparr>)"

definition Maximize :: "linear_expr \<Rightarrow> mp_solver \<Rightarrow> mp_solver" where
  "Maximize e s = s\<lparr>objective := e, maximization := True\<rparr>"

definition Add :: "linear_constraint \<Rightarrow> mp_solver \<Rightarrow> mp_solver" where
  "Add c s = s\<lparr>constraints := constraints s @ [c]\<rparr>"

text \<open>Python's \<^verbatim>\<open>str\<close> of a non-negative integer, for the names \<^verbatim>\<open>f'y_{i}'\<close>.\<close>

fun str_nat :: "nat \<Rightarrow> string" where
  "str_nat n =
     (if n < 10 then [char_of (48 + n)]
      else str_nat (n div 10) @ [char_of (48 + n mod 10)])"

text \<open>\<^verbatim>\<open>y = [solver.BoolVar(f'y_{i}') for i in range(N)]\<close>\<close>

definition make_variables :: "nat \<Rightarrow> mp_solver \<Rightarrow> nat list \<times> mp_solver" where
  "make_variables N s =
     fold (\<lambda>i (y, s). case BoolVar (''y_'' @ str_nat i) s of (v, s') \<Rightarrow> (y @ [v], s'))
       [0..<N] ([], s)"

text \<open>\<^verbatim>\<open>solver.Sum(W[i] * y[i] for i in range(N))\<close>\<close>

definition weighted_sum :: "nat \<Rightarrow> real list \<Rightarrow> nat list \<Rightarrow> linear_expr" where
  "weighted_sum N W y = map (\<lambda>i. (W ! i, y ! i)) [0..<N]"

text \<open>\<^verbatim>\<open>y[i] + y[j] <= 1\<close>\<close>

definition pair_constraint :: "nat list \<Rightarrow> nat \<Rightarrow> nat \<Rightarrow> linear_constraint" where
  "pair_constraint y i j = \<lparr>con_expr = [(1, y ! i), (1, y ! j)], con_ub = 1\<rparr>"

definition add_constraints :: "nat \<Rightarrow> nat list \<Rightarrow> nat list list \<Rightarrow> mp_solver \<Rightarrow> mp_solver" where
  "add_constraints N y neighbors s =
     fold (\<lambda>i s. fold (\<lambda>j s. Add (pair_constraint y i j) s) (neighbors ! i) s) [0..<N] s"

text \<open>The solver state handed to \<^verbatim>\<open>solver.Solve()\<close>, with the variable handles \<open>y\<close>.\<close>

definition mwis_model :: "nat \<Rightarrow> real list \<Rightarrow> nat list list \<Rightarrow> nat list \<times> mp_solver" where
  "mwis_model N W neighbors =
     (case make_variables N new_solver of
        (y, s1) \<Rightarrow> (y, add_constraints N y neighbors (Maximize (weighted_sum N W y) s1)))"

subsection \<open>Solving and decoding (lines 102-114)\<close>

text \<open>
  The solving engine is outside the script. It is a parameter of the model: a function
  from the solver state to a status and a value for every variable
  (\<^verbatim>\<open>y[i].solution_value()\<close> returns a number whatever the status).
  \<^verbatim>\<open>CreateSolver\<close> may return \<^verbatim>\<open>None\<close>, so the parameter is optional.
\<close>

datatype result_status =
    OPTIMAL | FEASIBLE | INFEASIBLE | UNBOUNDED | ABNORMAL | MODEL_INVALID | NOT_SOLVED

record solve_result =
  status :: result_status
  solution_value :: "nat \<Rightarrow> real"

type_synonym engine = "mp_solver \<Rightarrow> solve_result"

definition lin_eval :: "linear_expr \<Rightarrow> (nat \<Rightarrow> real) \<Rightarrow> real" where
  "lin_eval e val = sum_list (map (\<lambda>(c, v). c * val v) e)"

text \<open>Of the script's console output only the message of lines 104-109 is modelled.\<close>

datatype message = Optimal_found real | Solver_stopped result_status

definition status_message :: "mp_solver \<Rightarrow> solve_result \<Rightarrow> message" where
  "status_message s res =
     (if status res = OPTIMAL then Optimal_found (lin_eval (objective s) (solution_value res))
      else Solver_stopped (status res))"

text \<open>\<^verbatim>\<open>keep_flags = [int(y[i].solution_value() > 0.5) for i in range(N)]\<close>\<close>

definition keep_flags :: "nat \<Rightarrow> nat list \<Rightarrow> (nat \<Rightarrow> real) \<Rightarrow> int list" where
  "keep_flags N y val = map (\<lambda>i. if val (y ! i) > 0.5 then 1 else 0) [0..<N]"

text \<open>\<^verbatim>\<open>gdf[name] = values\<close>: an existing column is replaced in place, a new one is
  added last.\<close>

definition set_column :: "string \<Rightarrow> cell list \<Rightarrow> geodataframe \<Rightarrow> geodataframe" where
  "set_column name vals gdf = gdf\<lparr>columns := AList.update name vals (columns gdf)\<rparr>"

text \<open>\<^verbatim>\<open>gdf["keep"] == 0\<close>, cell by cell.\<close>

fun eq_zero :: "cell \<Rightarrow> cell" where
  "eq_zero (FloatV r) = BoolV (r = 0)"
| "eq_zero (IntV n) = BoolV (n = 0)"
| "eq_zero (BoolV b) = BoolV (\<not> b)"
| "eq_zero (TextV t r) = BoolV False"

definition save_flags :: "int list \<Rightarrow> geodataframe \<Rightarrow> geodataframe" where
  "save_flags flags gdf =
     (let gdf1 = set_column ''keep'' (map IntV flags) gdf;
          keep = (case get_column gdf1 ''keep'' of Some col \<Rightarrow> col | None \<Rightarrow> [])
      in set_column ''remove'' (map eq_zero keep) gdf1)"

text \<open>Lines 52-114: from the loaded table to the table with its \<open>keep\<close> and \<open>remove\<close>
  columns.\<close>

record optimized =
  table :: geodataframe
  solver_status :: result_status
  console :: "message list"

definition optimize :: "real \<Rightarrow> engine option \<Rightarrow> geodataframe \<Rightarrow> error + optimized" where
  "optimize spacing_m backend gdf =
     (let coords = coords_of gdf;
          N = len gdf;
          neighbors = build_conflict_graph spacing_m coords
      in case define_weights gdf of
           Inl e \<Rightarrow> Inl e
         | Inr W \<Rightarrow>
             (case backend of
                None \<Rightarrow> Inl (Exception ''Could not create CBC solver.'')
              | Some solve \<Rightarrow>
                  (case mwis_model N W neighbors of
                     (y, s) \<Rightarrow>
                       let res = solve s
                       in Inr \<lparr>table = save_flags (keep_flags N y (solution_value res)) gdf,
                               solver_status = status res,
                               console = [status_message s res]\<rparr>)))"

subsection \<open>Export (lines 123-128)\<close>

text \<open>
  \<^verbatim>\<open>gdf[['H','H_m','W','keep','remove','geometry']]\<close>: the listed columns in the listed
  order, or a \<^verbatim>\<open>KeyError\<close> naming the ones the table does not have. The geometry column
  is always there.
\<close>

definition select_columns :: "string list \<Rightarrow> geodataframe \<Rightarrow> error + geodataframe" where
  "select_columns names gdf =
     (let wanted = filter (\<lambda>n. n \<noteq> ''geometry'') names;
          missing = filter (\<lambda>n. \<not> has_column gdf n) wanted
      in if missing \<noteq> [] then Inl (KeyError missing)
         else Inr (gdf\<lparr>columns :=
                map (\<lambda>n. (n, case get_column gdf n of Some col \<Rightarrow> col | None \<Rightarrow> [])) wanted\<rparr>))"

text \<open>What the script leaves behind: the files it wrote and the exception that ended it,
  if any. The GeoJSON file is written before the CSV columns are selected.\<close>

record outcome =
  output_geojson :: "geodataframe option"
  output_csv :: "geodataframe option"
  raised :: "error option"

definition export :: "geodataframe \<Rightarrow> outcome" where
  "export gdf =
     (case select_columns [''H'', ''H_m'', ''W'', ''keep'', ''remove'', ''geometry''] gdf of
        Inl e \<Rightarrow> \<lparr>output_geojson = Some gdf, output_csv = None, raised = Some e\<rparr>
      | Inr csv \<Rightarrow> \<lparr>output_geojson = Some gdf, output_csv = Some csv, raised = None\<rparr>)"

definition run :: "real \<Rightarrow> engine option \<Rightarrow> geodataframe \<Rightarrow> outcome" where
  "run spacing_m backend gdf =
     (case optimize spacing_m backend gdf of
        Inl e \<Rightarrow> \<lparr>output_geojson = None, output_csv = None, raised = Some e\<rparr>
      | Inr opt \<Rightarrow> export (table opt))"

subsection \<open>What a solver result means\<close>

text \<open>
  The engine is a black box. Statements about its results use these predicates:
  an assignment satisfies the constraints that were added, it is feasible when it also
  respects the variables' bounds and integrality, and it is optimal when no feasible
  0/1 assignment has a larger objective.
\<close>

definition satisfies_constraints :: "mp_solver \<Rightarrow> (nat \<Rightarrow> real) \<Rightarrow> bool" where
  "satisfies_constraints s val =
     list_all (\<lambda>c. lin_eval (con_expr c) val \<le> con_ub c) (constraints s)"

definition within_domain :: "mp_solver \<Rightarrow> (nat \<Rightarrow> real) \<Rightarrow> bool" where
  "within_domain s val =
     list_all (\<lambda>v. var_lb (variables s ! v) \<le> val v \<and> val v \<le> var_ub (variables s ! v) \<and>
                   (var_integer (variables s ! v) \<longrightarrow> val v \<in> \<int>))
       [0..<length (variables s)]"

definition feasible :: "mp_solver \<Rightarrow> (nat \<Rightarrow> real) \<Rightarrow> bool" where
  "feasible s val = (within_domain s val \<and> satisfies_constraints s val)"

definition optimal :: "mp_solver \<Rightarrow> (nat \<Rightarrow> real) \<Rightarrow> bool" where
  "optimal s val =
     (feasible s val \<and>
      list_all (\<lambda>xs. feasible s (\<lambda>v. xs ! v) \<longrightarrow>
                     lin_eval (objective s) (\<lambda>v. xs ! v) \<le> lin_eval (objective s) val)
        (List.n_lists (length (variables s)) [0, 1]))"

subsection \<open>Example inputs\<close>

text \<open>Small tables and solver answers on which the statements below are evaluated. An
  answer is an engine that returns the same status and values for every model.\<close>

abbreviation two_trees :: geodataframe where
  "two_trees \<equiv>
     \<lparr>geometry = [(137, 35), (137, 35)],
      columns = [(''H'', [FloatV 20, FloatV 25]), (''H_m'', [FloatV 21, FloatV 24]),
                 (''W'', [FloatV 3, FloatV 5])]\<rparr>"

abbreviation one_tree :: "real \<Rightarrow> geodataframe" where
  "one_tree w \<equiv> \<lparr>geometry = [(137, 35)], columns = [(''W'', [FloatV w])]\<rparr>"

abbreviation no_trees :: geodataframe where
  "no_trees \<equiv> \<lparr>geometry = [], columns = [(''W'', [])]\<rparr>"

abbreviation answer :: "result_status \<Rightarrow> (nat \<Rightarrow> real) \<Rightarrow> engine" where
  "answer st val \<equiv> (\<lambda>s. \<lparr>status = st, solution_value = val\<rparr>)"

abbreviation keep_column :: "error + optimized \<Rightarrow> cell list option" where
  "keep_column r \<equiv> (case r of Inl e \<Rightarrow> None | Inr out \<Rightarrow> get_column (table out) ''keep'')"

section \<open>Properties\<close>

declare str_nat.simps [simp del]

subsection \<open>The conflict graph in closed form\<close>

lemma append_conflicts_length [simp]:
  "length (append_conflicts i cs nb) = length nb"
  unfolding append_conflicts_def by (induction cs arbitrary: nb) auto

lemma append_conflicts_eq:
  "i < length nb \<Longrightarrow>
   append_conflicts i cs nb = nb[i := nb ! i @ map (\<lambda>c. i + 1 + c) cs]"
  unfolding append_conflicts_def
proof (induction cs arbitrary: nb)
  case Nil
  then show ?case by simp
next
  case (Cons c cs)
  then show ?case by simp
qed

lemma build_fold_prefix:
  "k \<le> N \<Longrightarrow>
   fold (build_step S coords) [0..<k] (replicate N []) =
   map (neighbors_of S coords) [0..<k] @ replicate (N - k) []"
proof (induction k)
  case 0
  then show ?case by simp
next
  case (Suc k)
  then have k: "k < N" by simp
  let ?done = "map (neighbors_of S coords) [0..<k]"
  have len: "length ?done = k" by simp
  have rest: "replicate (N - k) [] = ([]::nat list) # replicate (N - Suc k) []"
    using k by (cases "N - k") (auto simp: Suc_diff_Suc)
  have "fold (build_step S coords) [0..<Suc k] (replicate N []) =
        build_step S coords k (?done @ replicate (N - k) [])"
    using Suc by simp
  also have "\<dots> = (?done @ replicate (N - k) [])
        [k := (?done @ replicate (N - k) []) ! k @ neighbors_of S coords k]"
    unfolding build_step_def neighbors_of_def
    using k by (subst append_conflicts_eq) simp_all
  also have "\<dots> = ?done @ neighbors_of S coords k # replicate (N - Suc k) []"
    unfolding rest using len by (simp add: list_update_append nth_append)
  finally show ?case by simp
qed

lemma build_conflict_graph_eq:
  "build_conflict_graph S coords = map (neighbors_of S coords) [0..<length coords]"
  unfolding build_conflict_graph_def Let_def
  using build_fold_prefix [of "length coords" "length coords" S coords] by simp

lemma build_conflict_graph_length [simp]:
  "length (build_conflict_graph S coords) = length coords"
  by (simp add: build_conflict_graph_eq)

lemma build_conflict_graph_nth:
  "i < length coords \<Longrightarrow> build_conflict_graph S coords ! i = neighbors_of S coords i"
  by (simp add: build_conflict_graph_eq)

lemma set_neighbors_of:
  "set (neighbors_of S coords i) =
     {j. i < j \<and> j < length coords \<and>
         haversine_m (fst (coords ! i)) (snd (coords ! i))
                     (fst (coords ! j)) (snd (coords ! j)) < S}"
proof (rule set_eqI)
  fix j
  show "j \<in> set (neighbors_of S coords i) \<longleftrightarrow>
        j \<in> {j. i < j \<and> j < length coords \<and>
             haversine_m (fst (coords ! i)) (snd (coords ! i))
                         (fst (coords ! j)) (snd (coords ! j)) < S}"
  proof
    assume "j \<in> set (neighbors_of S coords i)"
    then obtain c where c: "c < length coords - (i + 1)" "j = i + 1 + c"
        "distances_from coords i ! c < S"
      by (auto simp: neighbors_of_def conflict_indices_def distances_from_def)
    from c(1,3) have "haversine_m (fst (coords ! i)) (snd (coords ! i))
        (fst (coords ! (i + 1 + c))) (snd (coords ! (i + 1 + c))) < S"
      by (simp add: distances_from_def)
    with c show "j \<in> {j. i < j \<and> j < length coords \<and>
             haversine_m (fst (coords ! i)) (snd (coords ! i))
                         (fst (coords ! j)) (snd (coords ! j)) < S}"
      by auto
  next
    assume "j \<in> {j. i < j \<and> j < length coords \<and>
             haversine_m (fst (coords ! i)) (snd (coords ! i))
                         (fst (coords ! j)) (snd (coords ! j)) < S}"
    then have j: "i < j" "j < length coords"
      "haversine_m (fst (coords ! i)) (snd (coords ! i))
                   (fst (coords ! j)) (snd (coords ! j)) < S"
      by auto
    define c where "c = j - (i + 1)"
    have c: "c < length coords - (i + 1)" "j = i + 1 + c"
      using j by (auto simp: c_def)
    have "distances_from coords i ! c < S"
      using c j(3) by (simp add: distances_from_def)
    with c show "j \<in> set (neighbors_of S coords i)"
      by (auto simp: neighbors_of_def conflict_indices_def distances_from_def)
  qed
qed

lemma haversine_m_same [simp]: "haversine_m lat lon lat lon = 0"
  by (simp add: haversine_m_def)

lemma build_two_same:
  "build_conflict_graph 10 [(0, 0), (0, 0)] = [[1], []]"
  by (simp add: build_conflict_graph_def build_step_def append_conflicts_def
      conflict_indices_def distances_from_def numeral_2_eq_2)

lemma set_conflict_pairs:
  "set (conflict_pairs nb) = {(i, j). i < length nb \<and> j \<in> set (nb ! i)}"
  by (auto simp: conflict_pairs_def)

lemma distinct_pairs_prefix:
  "(\<And>i. i < k \<Longrightarrow> distinct (f i)) \<Longrightarrow>
   distinct (concat (map (\<lambda>i. map (Pair i) (f i)) [0..<k]))"
proof (induction k)
  case 0
  then show ?case by simp
next
  case (Suc k)
  then show ?case by (auto simp: distinct_map inj_on_def)
qed

lemma sorted_conflict_indices: "sorted_wrt (<) (conflict_indices S di)"
  unfolding conflict_indices_def by (simp add: sorted_wrt_filter)

lemma sorted_neighbors_of: "sorted_wrt (<) (neighbors_of S coords i)"
  unfolding neighbors_of_def using sorted_conflict_indices [of S "distances_from coords i"]
  by (simp add: sorted_wrt_map)

lemma distinct_neighbors_of: "distinct (neighbors_of S coords i)"
  using sorted_neighbors_of [of S coords i] by (simp add: strict_sorted_iff)

lemma length_conflict_pairs:
  "length (conflict_pairs nb) = total_conflicts nb"
proof -
  have "map (\<lambda>i. length (nb ! i)) [0..<length nb] = map length nb"
    by (rule nth_equalityI) simp_all
  moreover have "length (conflict_pairs nb) =
      sum_list (map (\<lambda>i. length (nb ! i)) [0..<length nb])"
    by (simp add: conflict_pairs_def length_concat comp_def)
  ultimately show ?thesis
    by (simp add: total_conflicts_def)
qed

subsection \<open>The emitted model in closed form\<close>

lemma make_variables_prefix:
  "variables s = [] \<Longrightarrow>
   fold (\<lambda>i (y, s). case BoolVar (''y_'' @ str_nat i) s of (v, s') \<Rightarrow> (y @ [v], s'))
       [0..<k] ([], s) =
   ([0..<k], s\<lparr>variables :=
       map (\<lambda>i. \<lparr>var_name = ''y_'' @ str_nat i, var_lb = 0, var_ub = 1, var_integer = True\<rparr>)
         [0..<k]\<rparr>)"
proof (induction k)
  case 0
  then show ?case by simp
next
  case (Suc k)
  then show ?case by (simp add: BoolVar_def)
qed

lemma make_variables_eq:
  "make_variables N new_solver =
   ([0..<N], new_solver\<lparr>variables :=
       map (\<lambda>i. \<lparr>var_name = ''y_'' @ str_nat i, var_lb = 0, var_ub = 1, var_integer = True\<rparr>)
         [0..<N]\<rparr>)"
  unfolding make_variables_def by (rule make_variables_prefix) (simp add: new_solver_def)

lemma fold_Add:
  "fold (\<lambda>j s. Add (f j) s) js s = s\<lparr>constraints := constraints s @ map f js\<rparr>"
  by (induction js arbitrary: s) (simp_all add: Add_def)

lemma add_constraints_prefix:
  "fold (\<lambda>i s. fold (\<lambda>j s. Add (pair_constraint y i j) s) (nb ! i) s) [0..<k] s =
   s\<lparr>constraints := constraints s @
        concat (map (\<lambda>i. map (pair_constraint y i) (nb ! i)) [0..<k])\<rparr>"
proof (induction k)
  case 0
  then show ?case by simp
next
  case (Suc k)
  then show ?case by (simp add: fold_Add)
qed

lemma add_constraints_eq:
  "add_constraints N y nb s =
   s\<lparr>constraints := constraints s @
        concat (map (\<lambda>i. map (pair_constraint y i) (nb ! i)) [0..<N])\<rparr>"
  unfolding add_constraints_def by (rule add_constraints_prefix)

lemma mwis_model_eq:
  "mwis_model N W nb =
   ([0..<N],
    \<lparr>variables =
       map (\<lambda>i. \<lparr>var_name = ''y_'' @ str_nat i, var_lb = 0, var_ub = 1, var_integer = True\<rparr>)
         [0..<N],
     objective = weighted_sum N W [0..<N],
     maximization = True,
     constraints = concat (map (\<lambda>i. map (pair_constraint [0..<N] i) (nb ! i)) [0..<N])\<rparr>)"
  by (simp add: mwis_model_def make_variables_eq add_constraints_eq Maximize_def)
     (simp add: new_solver_def)

lemma model_constraints_pairs:
  assumes "length nb = N" and "\<forall>ns \<in> set nb. \<forall>j \<in> set ns. j < N"
  shows "concat (map (\<lambda>i. map (pair_constraint [0..<N] i) (nb ! i)) [0..<N]) =
         map (\<lambda>(i, j). \<lparr>con_expr = [(1, i), (1, j)], con_ub = 1\<rparr>) (conflict_pairs nb)"
proof -
  have row: "map (pair_constraint [0..<N] i) (nb ! i) =
        map (\<lambda>(i, j). \<lparr>con_expr = [(1, i), (1, j)], con_ub = 1\<rparr>) (map (Pair i) (nb ! i))"
    if "i < N" for i
  proof -
    from that assms(1) have "nb ! i \<in> set nb" by simp
    with assms(2) have "\<forall>j \<in> set (nb ! i). j < N" by blast
    with that show ?thesis by (simp add: pair_constraint_def)
  qed
  have "map (\<lambda>i. map (pair_constraint [0..<N] i) (nb ! i)) [0..<N] =
        map (\<lambda>i. map (\<lambda>(i, j). \<lparr>con_expr = [(1, i), (1, j)], con_ub = 1\<rparr>)
                    (map (Pair i) (nb ! i))) [0..<N]"
    by (rule map_cong [OF refl]) (simp add: row)
  then have "concat (map (\<lambda>i. map (pair_constraint [0..<N] i) (nb ! i)) [0..<N]) =
        concat (map (\<lambda>i. map (\<lambda>(i, j). \<lparr>con_expr = [(1, i), (1, j)], con_ub = 1\<rparr>)
                    (map (Pair i) (nb ! i))) [0..<N])"
    by (rule arg_cong)
  also have "\<dots> =
        map (\<lambda>(i, j). \<lparr>con_expr = [(1, i), (1, j)], con_ub = 1\<rparr>) (conflict_pairs nb)"
    unfolding conflict_pairs_def assms(1) by (simp add: map_concat comp_def)
  finally show ?thesis .
qed

subsection \<open>The haversine distance\<close>

lemma haversine_m_hav_arg:
  "haversine_m lat1 lon1 lat2 lon2 = 2 * R * arcsin (sqrt (hav_arg lat1 lon1 lat2 lon2))"
  by (simp add: haversine_m_def hav_arg_def Let_def)

lemma cos_cos_squares:
  "cos (p1::real) * cos p2 = (cos ((p1 + p2) / 2))\<^sup>2 - (sin ((p2 - p1) / 2))\<^sup>2"
proof -
  have e1: "2 * ((p1 + p2) / 2) = p1 + p2" and e2: "2 * ((p2 - p1) / 2) = p2 - p1"
    by simp_all
  have 1: "cos (p1 + p2) = 2 * (cos ((p1 + p2) / 2))\<^sup>2 - 1"
    using cos_double_cos [of "(p1 + p2) / 2"] by (simp only: e1)
  have 2: "cos (p1 - p2) = 1 - 2 * (sin ((p2 - p1) / 2))\<^sup>2"
  proof -
    have "cos (p1 - p2) = cos (p2 - p1)"
      using cos_minus [of "p2 - p1"] by simp
    also have "\<dots> = 1 - 2 * (sin ((p2 - p1) / 2))\<^sup>2"
      using cos_double_sin [of "(p2 - p1) / 2"] by (simp only: e2)
    finally show ?thesis .
  qed
  show ?thesis
    unfolding cos_times_cos [of p1 p2] 1 2 by simp
qed

lemma hav_arg_convex:
  "hav_arg lat1 lon1 lat2 lon2 =
     (1 - (sin ((lon2 - lon1) / 2))\<^sup>2) * (sin ((lat2 - lat1) / 2))\<^sup>2 +
     (sin ((lon2 - lon1) / 2))\<^sup>2 * (cos ((lat1 + lat2) / 2))\<^sup>2"
  unfolding hav_arg_def cos_cos_squares [of lat1 lat2] by (simp add: algebra_simps)

lemma sin_sq_le_1: "(sin (x::real))\<^sup>2 \<le> 1"
  using sin_cos_squared_add [of x] zero_le_power2 [of "cos x"] by linarith

lemma cos_sq_le_1: "(cos (x::real))\<^sup>2 \<le> 1"
  using sin_cos_squared_add [of x] zero_le_power2 [of "sin x"] by linarith

lemma hav_arg_nonneg: "0 \<le> hav_arg lat1 lon1 lat2 lon2"
  unfolding hav_arg_convex
  by (intro add_nonneg_nonneg mult_nonneg_nonneg) (simp_all add: sin_sq_le_1)

lemma hav_arg_le_1: "hav_arg lat1 lon1 lat2 lon2 \<le> 1"
proof -
  let ?s = "(sin ((lon2 - lon1) / 2))\<^sup>2"
  have "(1 - ?s) * (sin ((lat2 - lat1) / 2))\<^sup>2 \<le> (1 - ?s) * 1"
    by (rule mult_left_mono) (simp_all add: sin_sq_le_1)
  then have 1: "(1 - ?s) * (sin ((lat2 - lat1) / 2))\<^sup>2 \<le> 1 - ?s"
    by simp
  have "?s * (cos ((lat1 + lat2) / 2))\<^sup>2 \<le> ?s * 1"
    by (rule mult_left_mono) (simp_all add: cos_sq_le_1)
  then have 2: "?s * (cos ((lat1 + lat2) / 2))\<^sup>2 \<le> ?s"
    by simp
  from 1 2 show ?thesis
    unfolding hav_arg_convex by linarith
qed

lemma arcsin_nonneg': "0 \<le> y \<Longrightarrow> y \<le> 1 \<Longrightarrow> 0 \<le> arcsin y"
  using arcsin_le_arcsin [of 0 y] by simp

lemma sqrt_hav_arg_range:
  "0 \<le> sqrt (hav_arg lat1 lon1 lat2 lon2)" "sqrt (hav_arg lat1 lon1 lat2 lon2) \<le> 1"
  using hav_arg_nonneg [of lat1 lon1 lat2 lon2] hav_arg_le_1 [of lat1 lon1 lat2 lon2]
  by (simp_all add: real_sqrt_le_1_iff)

lemma haversine_m_nonneg: "0 \<le> haversine_m lat1 lon1 lat2 lon2"
  unfolding haversine_m_hav_arg
  using arcsin_nonneg' [OF sqrt_hav_arg_range [of lat1 lon1 lat2 lon2]]
  by (simp add: R_def)

subsection \<open>The pipeline up to the decoded table\<close>

lemma get_column_save_flags_keep:
  "get_column (save_flags flags gdf) ''keep'' = Some (map IntV flags)"
  by (simp add: save_flags_def set_column_def get_column_def update_conv' Let_def)

lemma get_column_save_flags_remove:
  "get_column (save_flags flags gdf) ''remove'' = Some (map (\<lambda>k. BoolV (k = 0)) flags)"
  by (simp add: save_flags_def set_column_def get_column_def update_conv' Let_def 
      comp_def)

lemma get_column_save_flags_other:
  "n \<noteq> ''keep'' \<Longrightarrow> n \<noteq> ''remove'' \<Longrightarrow>
   get_column (save_flags flags gdf) n = get_column gdf n"
  by (simp add: save_flags_def set_column_def get_column_def update_conv' Let_def)

lemma has_column_iff: "has_column gdf n \<longleftrightarrow> get_column gdf n \<noteq> None"
  by (simp add: has_column_def get_column_def map_of_eq_None_iff)

lemma geometry_save_flags [simp]: "geometry (save_flags flags gdf) = geometry gdf"
  by (simp add: save_flags_def set_column_def Let_def)

lemma optimize_Some:
  assumes "define_weights gdf = Inr W"
      and "mwis_model (len gdf) W (build_conflict_graph S (coords_of gdf)) = (y, s)"
  shows "optimize S (Some solve) gdf =
         Inr \<lparr>table = save_flags (keep_flags (len gdf) y (solution_value (solve s))) gdf,
              solver_status = status (solve s),
              console = [status_message s (solve s)]\<rparr>"
  using assms by (simp add: optimize_def Let_def)

lemma optimize_None:
  "define_weights gdf = Inr W \<Longrightarrow>
   optimize S None gdf = Inl (Exception ''Could not create CBC solver.'')"
  by (simp add: optimize_def Let_def)

lemma pair_constraint_holds:
  assumes "satisfies_constraints s val"
      and "constraints s =
           map (\<lambda>(i, j). \<lparr>con_expr = [(1, i), (1, j)], con_ub = 1\<rparr>) pairs"
      and "(i, j) \<in> set pairs"
  shows "val i + val j \<le> 1"
proof -
  from assms(2,3) have "\<lparr>con_expr = [(1, i), (1, j)], con_ub = 1\<rparr> \<in> set (constraints s)"
    by force
  with assms(1) have "lin_eval [(1, i), (1, j)] val \<le> 1"
    unfolding satisfies_constraints_def list_all_iff by force
  then show ?thesis by (simp add: lin_eval_def)
qed

lemma builder_output_wf:
  "\<forall>ns \<in> set (build_conflict_graph S coords). \<forall>j \<in> set ns. j < length coords"
  by (auto simp: build_conflict_graph_eq set_neighbors_of)

lemma length_coords_of [simp]: "length (coords_of gdf) = len gdf"
  by (simp add: coords_of_def len_def)

subsection \<open>Boundary cases, export and the example inputs\<close>

lemma neighbors_of_nonpositive:
  assumes "S \<le> 0"
  shows "neighbors_of S coords i = []"
proof -
  have "set (neighbors_of S coords i) = {}"
    unfolding set_neighbors_of
    using haversine_m_nonneg assms by (auto simp: not_less intro: order_trans)
  then show ?thesis by simp
qed

lemma build_nonpositive:
  "S \<le> 0 \<Longrightarrow> build_conflict_graph S coords = replicate (length coords) []"
  by (rule nth_equalityI) (simp_all add: build_conflict_graph_eq neighbors_of_nonpositive)

lemma build_pair_same:
  "0 < S \<Longrightarrow> build_conflict_graph S [p, p] = [[1], []]"
  by (simp add: build_conflict_graph_def build_step_def append_conflicts_def
      conflict_indices_def distances_from_def numeral_2_eq_2)

lemma build_empty [simp]: "build_conflict_graph S [] = []"
  by (simp add: build_conflict_graph_def)

lemma build_single [simp]: "build_conflict_graph S [p] = [[]]"
  by (simp add: build_conflict_graph_def build_step_def append_conflicts_def
      conflict_indices_def distances_from_def)

lemma define_weights_eq:
  "define_weights gdf =
     (case weight_column gdf of
        Some col \<Rightarrow> to_numpy_float col
      | None \<Rightarrow>
          Inl (ValueError ''Data must contain either 'W' or 'H_m' column for optimization.''))"
  by (simp add: define_weights_def weight_column_def split: option.splits)

lemma weight_column_Some_iff:
  "(\<exists>col. weight_column gdf = Some col) \<longleftrightarrow> has_column gdf ''W'' \<or> has_column gdf ''H_m''"
  by (auto simp: weight_column_def has_column_iff split: option.splits)

lemma to_numpy_float_Inr_iff:
  "(\<exists>rs. to_numpy_float cs = Inr rs) \<longleftrightarrow> list_all convertible cs"
proof (induction cs)
  case Nil
  then show ?case by simp
next
  case (Cons c cs)
  show ?case
  proof (cases "to_float c")
    case (Inl e)
    then have "\<not> convertible c"
      by (cases c rule: to_float.cases) (simp_all add: convertible_def)
    with Inl show ?thesis by simp
  next
    case (Inr r)
    then have "convertible c"
      by (cases c rule: to_float.cases) (simp_all add: convertible_def)
    with Inr Cons show ?thesis by (auto split: sum.splits)
  qed
qed

lemma define_weights_Inr_iff:
  "(\<exists>W. define_weights gdf = Inr W) \<longleftrightarrow>
   (\<exists>col. weight_column gdf = Some col \<and> list_all convertible col)"
  by (cases "weight_column gdf") (simp_all add: define_weights_eq to_numpy_float_Inr_iff)

lemma optimize_Inr_iff:
  "(\<exists>out. optimize S backend gdf = Inr out) \<longleftrightarrow>
   (\<exists>W. define_weights gdf = Inr W) \<and> backend \<noteq> None"
  by (cases "define_weights gdf"; cases backend) (simp_all add: optimize_def Let_def split: prod.splits)

lemma optimize_Inl_threshold:
  "optimize S backend gdf = Inl e \<longleftrightarrow> optimize S' backend gdf = Inl e"
  by (cases "define_weights gdf"; cases backend) (simp_all add: optimize_def Let_def split: prod.splits)

lemma weight_column_convertible:
  assumes "list_all (\<lambda>(n, col). list_all convertible col) (columns gdf)"
      and "weight_column gdf = Some col"
  shows "list_all convertible col"
proof -
  from assms(2) obtain n where "map_of (columns gdf) n = Some col"
    by (auto simp: weight_column_def get_column_def split: option.splits)
  then have "(n, col) \<in> set (columns gdf)" by (rule map_of_SomeD)
  with assms(1) show ?thesis by (auto simp: list_all_iff)
qed

lemma optimize_result:
  "optimize S backend gdf =
     (case define_weights gdf of
        Inl e \<Rightarrow> Inl e
      | Inr W \<Rightarrow>
          (case backend of
             None \<Rightarrow> Inl (Exception ''Could not create CBC solver.'')
           | Some solve \<Rightarrow>
               (let s = snd (mwis_model (len gdf) W (build_conflict_graph S (coords_of gdf)));
                    res = solve s
                in Inr \<lparr>table = save_flags (keep_flags (len gdf) [0..<len gdf] (solution_value res)) gdf,
                        solver_status = status res,
                        console = [status_message s res]\<rparr>)))"
  by (simp add: optimize_def Let_def mwis_model_eq split: sum.splits option.splits)

lemma coords_two_trees:
  "coords_of two_trees = [(radians 35, radians 137), (radians 35, radians 137)]"
  by (simp add: coords_of_def)

lemma weights_two_trees: "define_weights two_trees = Inr [3, 5]"
  by (simp add: define_weights_def get_column_def)

lemma len_two_trees: "len two_trees = 2"
  by (simp add: len_def)

lemma upt_2: "[0..<2] = [0, 1]"
  by (simp add: numeral_2_eq_2)

lemma optimize_two_trees:
  "optimize S (Some (answer st val)) two_trees =
     Inr \<lparr>table = two_trees\<lparr>columns := columns two_trees @
              [(''keep'', [IntV (if val 0 > 0.5 then 1 else 0), IntV (if val 1 > 0.5 then 1 else 0)]),
               (''remove'', [BoolV (\<not> val 0 > 0.5), BoolV (\<not> val 1 > 0.5)])]\<rparr>,
          solver_status = st,
          console = [if st = OPTIMAL then Optimal_found (3 * val 0 + 5 * val 1)
                     else Solver_stopped st]\<rparr>"
  by (simp add: optimize_result weights_two_trees len_two_trees coords_two_trees
      mwis_model_eq upt_2 keep_flags_def save_flags_def set_column_def
      get_column_def  status_message_def lin_eval_def weighted_sum_def Let_def)

lemma run_Inr:
  "optimize S backend gdf = Inr out \<Longrightarrow> run S backend gdf = export (table out)"
  by (simp add: run_def)

lemma has_column_save_flags:
  "has_column (save_flags flags gdf) n \<longleftrightarrow> n = ''keep'' \<or> n = ''remove'' \<or> has_column gdf n"
  unfolding has_column_iff
  by (cases "n = ''keep''"; cases "n = ''remove''")
     (simp_all add: get_column_save_flags_keep get_column_save_flags_remove
        get_column_save_flags_other)

lemma table_of_optimize:
  "optimize S backend gdf = Inr out \<Longrightarrow> \<exists>flags. table out = save_flags flags gdf"
  by (auto simp: optimize_result Let_def split: sum.splits option.splits)

lemma export_raised:
  "raised (export gdf) =
     (let missing = filter (\<lambda>n. \<not> has_column gdf n) [''H'', ''H_m'', ''W'', ''keep'', ''remove'']
      in if missing = [] then None else Some (KeyError missing))"
  by (simp add: export_def select_columns_def Let_def)

lemma export_outputs:
  "output_geojson (export gdf) = Some gdf"
  "output_csv (export gdf) = None \<longleftrightarrow> raised (export gdf) \<noteq> None"
  by (simp_all add: export_def select_columns_def Let_def)

lemma optimize_one_tree:
  "optimize S (Some (answer st val)) (one_tree w) =
     Inr \<lparr>table = (one_tree w)\<lparr>columns := columns (one_tree w) @
              [(''keep'', [IntV (if val 0 > 0.5 then 1 else 0)]),
               (''remove'', [BoolV (\<not> val 0 > 0.5)])]\<rparr>,
          solver_status = st,
          console = [if st = OPTIMAL then Optimal_found (w * val 0) else Solver_stopped st]\<rparr>"
  by (simp add: optimize_result define_weights_def len_def
      mwis_model_eq keep_flags_def save_flags_def set_column_def
      get_column_def  status_message_def lin_eval_def weighted_sum_def Let_def)

lemma optimize_no_trees:
  "optimize S (Some (answer st val)) no_trees =
     Inr \<lparr>table = no_trees\<lparr>columns := columns no_trees @ [(''keep'', []), (''remove'', [])]\<rparr>,
          solver_status = st,
          console = [if st = OPTIMAL then Optimal_found 0 else Solver_stopped st]\<rparr>"
  by (simp add: optimize_result define_weights_def len_def
      mwis_model_eq keep_flags_def save_flags_def set_column_def
      get_column_def  status_message_def lin_eval_def weighted_sum_def Let_def)

lemma model_one_tree:
  "mwis_model (Suc 0) [w] [[]] =
     ([0], \<lparr>variables = [\<lparr>var_name = ''y_'' @ str_nat 0, var_lb = 0, var_ub = 1,
                             var_integer = True\<rparr>],
            objective = [(w, 0)], maximization = True, constraints = []\<rparr>)"
  by (simp add: mwis_model_eq weighted_sum_def)

lemma optimal_one_tree:
  "optimal (snd (mwis_model (Suc 0) [w] [[]])) val \<longleftrightarrow>
     (val 0 = 0 \<or> val 0 = 1) \<and> 0 \<le> w * val 0 \<and> w \<le> w * val 0"
proof -
  have "val 0 \<in> \<int> \<and> 0 \<le> val 0 \<and> val 0 \<le> 1 \<longleftrightarrow> val 0 = 0 \<or> val 0 = 1"
  proof
    assume a: "val 0 \<in> \<int> \<and> 0 \<le> val 0 \<and> val 0 \<le> 1"
    then obtain k :: int where k: "val 0 = of_int k" by (auto elim: Ints_cases)
    with a have "0 \<le> k" "k \<le> 1" by simp_all
    then have "k = 0 \<or> k = 1" by linarith
    with k show "val 0 = 0 \<or> val 0 = 1" by auto
  next
    assume "val 0 = 0 \<or> val 0 = 1"
    then show "val 0 \<in> \<int> \<and> 0 \<le> val 0 \<and> val 0 \<le> 1" by auto
  qed

  then show ?thesis
    unfolding model_one_tree snd_conv optimal_def feasible_def within_domain_def
      satisfies_constraints_def
    by (auto simp: lin_eval_def)
qed

lemma conflict_pairs_simps [simp]:
  "conflict_pairs [] = []" "conflict_pairs [[]] = []"
  by (simp_all add: conflict_pairs_def)

section \<open>The claims\<close>

text \<open>
  C2. Conflict-set correctness with strict inequality: for indices \<open>i < j\<close> of the point
  array, the pair \<open>(i, j)\<close> is among the builder's conflict pairs exactly when the
  haversine distance from point \<open>i\<close> to point \<open>j\<close> is strictly below the threshold; a pair
  whose distance equals the threshold is not a conflict.
\<close>

theorem conflict_set_correct:
  assumes "i < j" and "j < length coords"
  shows "((i, j) \<in> set (conflict_pairs (build_conflict_graph S coords)) \<longleftrightarrow>
          haversine_m (fst (coords ! i)) (snd (coords ! i))
                      (fst (coords ! j)) (snd (coords ! j)) < S)
       \<and> (haversine_m (fst (coords ! i)) (snd (coords ! i))
                      (fst (coords ! j)) (snd (coords ! j)) = S \<longrightarrow>
          (i, j) \<notin> set (conflict_pairs (build_conflict_graph S coords)))"
  using assms by (simp add: set_conflict_pairs build_conflict_graph_nth set_neighbors_of)

theorem conflict_set_correct_witness:
  "(0::nat) < 1 \<and> 1 < length [(0::real, 0::real), (0, 0)] \<and>
   (0, 1) \<in> set (conflict_pairs (build_conflict_graph 10 [(0, 0), (0, 0)])) \<and>
   (0, 1) \<notin> set (conflict_pairs (build_conflict_graph 0 [(0, 0), (0, 0)]))"
  using conflict_set_correct [of 0 1 "[(0, 0), (0, 0)]" 10]
    conflict_set_correct [of 0 1 "[(0, 0), (0, 0)]" 0]
  by simp

text \<open>
  C7. Canonical conflict-pair representation: the builder's pairs contain no pair twice,
  every stored pair \<open>(i, j)\<close> has \<open>i < j\<close> (so there is no self-pair and no reversed pair)
  and \<open>j\<close> is a point index, and every neighbour list is strictly ascending. The lists
  are built in that form; nothing is deduplicated afterwards.
\<close>

theorem canonical_pairs:
  "distinct (conflict_pairs (build_conflict_graph S coords)) \<and>
   (\<forall>(i, j) \<in> set (conflict_pairs (build_conflict_graph S coords)).
        i < j \<and> j < length coords) \<and>
   (\<forall>ns \<in> set (build_conflict_graph S coords). sorted_wrt (<) ns)"
proof (intro conjI)
  show "distinct (conflict_pairs (build_conflict_graph S coords))"
    unfolding conflict_pairs_def build_conflict_graph_length
    by (rule distinct_pairs_prefix) (simp add: build_conflict_graph_nth distinct_neighbors_of)
  show "\<forall>(i, j) \<in> set (conflict_pairs (build_conflict_graph S coords)).
        i < j \<and> j < length coords"
    by (auto simp: set_conflict_pairs build_conflict_graph_nth set_neighbors_of)
  show "\<forall>ns \<in> set (build_conflict_graph S coords). sorted_wrt (<) ns"
    by (auto simp: build_conflict_graph_eq sorted_neighbors_of)
qed

theorem canonical_pairs_witness:
  "(0, 1) \<in> set (conflict_pairs (build_conflict_graph 10 [(0, 0), (0, 0)])) \<and>
   [1] \<in> set (build_conflict_graph 10 [(0, 0), (0, 0)]) \<and>
   distinct (conflict_pairs (build_conflict_graph 10 [(0, 0), (0, 0)])) \<and>
   (0::nat) < 1 \<and> (1::nat) < length [(0::real, 0::real), (0, 0)] \<and> sorted_wrt (<) [1::nat]"
  using canonical_pairs [of 10 "[(0, 0), (0, 0)]"]
  by (simp add: build_two_same conflict_pairs_def numeral_2_eq_2)

text \<open>
  C4. Encoder model shape: for \<open>N\<close> weights and a conflict graph over \<open>N\<close> points, the
  model handed to the solver has exactly \<open>N\<close> variables, all binary (integer, bounds 0 and
  1), the objective is to maximise the sum of \<open>W[i] * y[i]\<close>, and the constraints are
  exactly one \<open>y[i] + y[j] \<le> 1\<close> per stored conflict pair, in the pairs' order; their
  number is the total conflict count.
\<close>

theorem encoder_model_shape:
  assumes "length neighbors = N"
      and "\<forall>ns \<in> set neighbors. \<forall>j \<in> set ns. j < N"
      and "mwis_model N W neighbors = (y, s)"
  shows "y = [0..<N] \<and>
         length (variables s) = N \<and>
         (\<forall>v \<in> set (variables s). var_lb v = 0 \<and> var_ub v = 1 \<and> var_integer v) \<and>
         maximization s \<and>
         objective s = map (\<lambda>i. (W ! i, i)) [0..<N] \<and>
         constraints s =
           map (\<lambda>(i, j). \<lparr>con_expr = [(1, i), (1, j)], con_ub = 1\<rparr>) (conflict_pairs neighbors) \<and>
         length (constraints s) = total_conflicts neighbors"
proof -
  from assms(3) have y: "y = [0..<N]"
    and s: "s = \<lparr>variables =
       map (\<lambda>i. \<lparr>var_name = ''y_'' @ str_nat i, var_lb = 0, var_ub = 1, var_integer = True\<rparr>)
         [0..<N],
     objective = weighted_sum N W [0..<N],
     maximization = True,
     constraints = concat (map (\<lambda>i. map (pair_constraint [0..<N] i) (neighbors ! i)) [0..<N])\<rparr>"
    by (auto simp: mwis_model_eq)
  have c: "constraints s =
           map (\<lambda>(i, j). \<lparr>con_expr = [(1, i), (1, j)], con_ub = 1\<rparr>) (conflict_pairs neighbors)"
    using model_constraints_pairs [OF assms(1,2)] by (simp add: s)
  have o: "objective s = map (\<lambda>i. (W ! i, i)) [0..<N]"
    by (simp add: s weighted_sum_def)
  have v: "\<forall>v \<in> set (variables s). var_lb v = 0 \<and> var_ub v = 1 \<and> var_integer v"
    by (auto simp: s)
  show ?thesis
    using y c o v by (simp add: length_conflict_pairs) (simp add: s)
qed

theorem encoder_model_shape_witness:
  "length [[1], []] = (2::nat) \<and>
   list_all (list_all (\<lambda>j. j < (2::nat))) [[1], []] \<and>
   length (variables (snd (mwis_model 2 [3, 5] [[1], []]))) = 2 \<and>
   objective (snd (mwis_model 2 [3, 5] [[1], []])) = [(3, 0), (5, 1)] \<and>
   constraints (snd (mwis_model 2 [3, 5] [[1], []])) =
     [\<lparr>con_expr = [(1, 0), (1, 1)], con_ub = 1\<rparr>] \<and>
   total_conflicts [[1], []] = 1"
  using encoder_model_shape [of "[[1], []]" 2 "[3, 5]"
      "fst (mwis_model 2 [3, 5] [[1], []])" "snd (mwis_model 2 [3, 5] [[1], []])"]
  by (simp add: conflict_pairs_def total_conflicts_def numeral_2_eq_2)

text \<open>
  C5. Decode thresholding: the decoded flag of variable \<open>i\<close> is 1 exactly when the
  solver's value for it is greater than 0.5, and 0 otherwise, for every value (so also
  for every value in the interval from 0 to 1); a value of 0.9999997 gives 1 and a value
  of exactly 0.5 gives 0.
\<close>

theorem decode_threshold:
  assumes "mwis_model N W neighbors = (y, s)" and "i < N"
  shows "length (keep_flags N y val) = N \<and>
         (keep_flags N y val ! i = 1 \<longleftrightarrow> val i > 0.5) \<and>
         (keep_flags N y val ! i = 0 \<longleftrightarrow> val i \<le> 0.5) \<and>
         (val i = 0.9999997 \<longrightarrow> keep_flags N y val ! i = 1) \<and>
         (val i = 0.5 \<longrightarrow> keep_flags N y val ! i = 0)"
proof -
  from assms(1) have "y = [0..<N]" by (auto simp: mwis_model_eq)
  with assms(2) show ?thesis by (simp add: keep_flags_def)
qed

theorem decode_threshold_witness:
  "(0::nat) < 2 \<and> (1::nat) < 2 \<and>
   keep_flags 2 (fst (mwis_model 2 [3, 5] [[1], []]))
     (\<lambda>v. if v = 0 then 0.9999997 else 0.5) ! 0 = 1 \<and>
   keep_flags 2 (fst (mwis_model 2 [3, 5] [[1], []]))
     (\<lambda>v. if v = 0 then 0.9999997 else 0.5) ! 1 = 0"
  using decode_threshold [of 2 "[3, 5]" "[[1], []]"
      "fst (mwis_model 2 [3, 5] [[1], []])" "snd (mwis_model 2 [3, 5] [[1], []])" 0
      "\<lambda>v. if v = 0 then 0.9999997 else 0.5"]
    decode_threshold [of 2 "[3, 5]" "[[1], []]"
      "fst (mwis_model 2 [3, 5] [[1], []])" "snd (mwis_model 2 [3, 5] [[1], []])" 1
      "\<lambda>v. if v = 0 then 0.9999997 else 0.5"]
  by simp

text \<open>
  C1. End-to-end independent-set invariant: when the status returned by the solver is
  OPTIMAL or FEASIBLE, and a result with such a status satisfies the constraints of the
  model it was given (what the status means), then for every stored conflict pair
  \<open>(i, j)\<close> the decoded \<open>keep\<close> column does not have a 1 at both \<open>i\<close> and \<open>j\<close>.
\<close>

theorem independent_set_invariant:
  assumes W: "define_weights gdf = Inr W"
      and m: "mwis_model (len gdf) W (build_conflict_graph S (coords_of gdf)) = (y, s)"
      and contract: "status (solve s) = OPTIMAL \<or> status (solve s) = FEASIBLE \<Longrightarrow>
                     satisfies_constraints s (solution_value (solve s))"
      and out: "optimize S (Some solve) gdf = Inr out"
      and ok: "solver_status out = OPTIMAL \<or> solver_status out = FEASIBLE"
      and keep: "get_column (table out) ''keep'' = Some keep"
      and pair: "(i, j) \<in> set (conflict_pairs (build_conflict_graph S (coords_of gdf)))"
  shows "\<not> (keep ! i = IntV 1 \<and> keep ! j = IntV 1)"
proof
  assume both: "keep ! i = IntV 1 \<and> keep ! j = IntV 1"
  let ?nb = "build_conflict_graph S (coords_of gdf)"
  let ?val = "solution_value (solve s)"
  from m have y: "y = [0..<len gdf]" by (auto simp: mwis_model_eq)
  have cs: "constraints s =
      map (\<lambda>(i, j). \<lparr>con_expr = [(1, i), (1, j)], con_ub = 1\<rparr>) (conflict_pairs ?nb)"
    using m model_constraints_pairs [of ?nb "len gdf"] builder_output_wf [of S "coords_of gdf"]
    by (auto simp: mwis_model_eq)
  from out have o: "out = \<lparr>table = save_flags (keep_flags (len gdf) y ?val) gdf,
              solver_status = status (solve s),
              console = [status_message s (solve s)]\<rparr>"
    by (simp add: optimize_Some [OF W m])
  with ok have "status (solve s) = OPTIMAL \<or> status (solve s) = FEASIBLE" by simp
  then have sat: "satisfies_constraints s ?val" by (rule contract)
  have sum: "?val i + ?val j \<le> 1"
    by (rule pair_constraint_holds [OF sat cs pair])
  from pair have ij: "i < len gdf" "j < len gdf"
    by (auto simp: set_conflict_pairs build_conflict_graph_nth set_neighbors_of)
  from keep o have k: "keep = map IntV (keep_flags (len gdf) [0..<len gdf] ?val)"
    by (simp add: get_column_save_flags_keep y)
  from both ij have "?val i > 0.5" "?val j > 0.5"
    by (simp_all add: k keep_flags_def split: if_splits)
  with sum show False by simp
qed

theorem independent_set_invariant_witness:
  "define_weights two_trees = Inr [3, 5] \<and>
   (0, 1) \<in> set (conflict_pairs (build_conflict_graph 10 (coords_of two_trees))) \<and>
   satisfies_constraints
     (snd (mwis_model (len two_trees) [3, 5] (build_conflict_graph 10 (coords_of two_trees))))
     (\<lambda>v. if v = 1 then 1 else 0) \<and>
   solver_status (projr (optimize 10 (Some (answer OPTIMAL (\<lambda>v. if v = 1 then 1 else 0)))
       two_trees)) = OPTIMAL \<and>
   keep_column (optimize 10 (Some (answer OPTIMAL (\<lambda>v. if v = 1 then 1 else 0))) two_trees) =
     Some [IntV 0, IntV 1]"
  using independent_set_invariant [of two_trees "[3, 5]" 10
      "fst (mwis_model (len two_trees) [3, 5] (build_conflict_graph 10 (coords_of two_trees)))"
      "snd (mwis_model (len two_trees) [3, 5] (build_conflict_graph 10 (coords_of two_trees)))"
      "answer OPTIMAL (\<lambda>v. if v = 1 then 1 else 0)"
      "projr (optimize 10 (Some (answer OPTIMAL (\<lambda>v. if v = 1 then 1 else 0))) two_trees)"
      "[IntV 0, IntV 1]" 0 1]
  by (simp add: weights_two_trees optimize_two_trees get_column_def len_two_trees
      coords_two_trees build_pair_same conflict_pairs_def upt_2 mwis_model_eq
      satisfies_constraints_def pair_constraint_def lin_eval_def)

text \<open>
  C6, as amended. The decode step never fails on the solver's status. For every engine and
  every status it returns, the values the engine reports are thresholded at 0.5 and
  stored as the \<open>keep\<close> column; a status other than OPTIMAL (FEASIBLE included) only
  changes the console message to a warning that names the status. The one exception
  raised around the solver is for a solver that cannot be created.
\<close>

theorem decode_ignores_status:
  assumes "define_weights gdf = Inr W"
      and "mwis_model (len gdf) W (build_conflict_graph S (coords_of gdf)) = (y, s)"
  shows "(\<exists>out. optimize S (Some solve) gdf = Inr out \<and>
            solver_status out = status (solve s) \<and>
            get_column (table out) ''keep'' =
              Some (map (\<lambda>i. IntV (if solution_value (solve s) i > 0.5 then 1 else 0))
                     [0..<len gdf]) \<and>
            console out =
              [if status (solve s) = OPTIMAL
               then Optimal_found (lin_eval (objective s) (solution_value (solve s)))
               else Solver_stopped (status (solve s))]) \<and>
         optimize S None gdf = Inl (Exception ''Could not create CBC solver.'')"
proof -
  from assms(2) have y: "y = [0..<len gdf]" by (auto simp: mwis_model_eq)
  show ?thesis
    by (simp add: optimize_Some [OF assms] optimize_None [OF assms(1)]
        get_column_save_flags_keep status_message_def y keep_flags_def)
qed

theorem decode_ignores_status_witness:
  "define_weights two_trees = Inr [3, 5] \<and>
   solver_status (projr (optimize 10 (Some (answer ABNORMAL (\<lambda>v. 0))) two_trees)) = ABNORMAL \<and>
   keep_column (optimize 10 (Some (answer ABNORMAL (\<lambda>v. 0))) two_trees) =
     Some [IntV 0, IntV 0] \<and>
   console (projr (optimize 10 (Some (answer ABNORMAL (\<lambda>v. 0))) two_trees)) =
     [Solver_stopped ABNORMAL]"
  using decode_ignores_status [of two_trees "[3, 5]" 10
      "fst (mwis_model (len two_trees) [3, 5] (build_conflict_graph 10 (coords_of two_trees)))"
      "snd (mwis_model (len two_trees) [3, 5] (build_conflict_graph 10 (coords_of two_trees)))"
      "answer ABNORMAL (\<lambda>v. 0)"]
  by (simp add: weights_two_trees optimize_two_trees get_column_def)

text \<open>With an engine that answers ABNORMAL and reports 0 for every variable (what
  \<^verbatim>\<open>solution_value()\<close> gives when there is no solution), the script stores an all-false
  labeling and exports it without raising.\<close>

theorem decode_failure_counterexample:
  "optimize 10 (Some (answer ABNORMAL (\<lambda>v. 0))) two_trees =
     Inr \<lparr>table = two_trees\<lparr>columns := columns two_trees @
              [(''keep'', [IntV 0, IntV 0]), (''remove'', [BoolV True, BoolV True])]\<rparr>,
          solver_status = ABNORMAL,
          console = [Solver_stopped ABNORMAL]\<rparr> \<and>
   raised (run 10 (Some (answer ABNORMAL (\<lambda>v. 0))) two_trees) = None"
  by (simp add: optimize_two_trees run_def export_raised has_column_def)

text \<open>
  C8, as amended. The threshold is not validated before the graph is built. The builder
  runs for every threshold and every coordinate list; with a threshold that is zero or
  negative it returns an empty neighbour list for every point, and the script goes on to
  the solver and stores the decoded labeling. Whether the script raises before the
  labeling is stored, and what it raises, does not depend on the threshold.
\<close>

theorem no_precondition_checks:
  "(S \<le> 0 \<longrightarrow> build_conflict_graph S coords = replicate (length coords) []) \<and>
   (S \<le> 0 \<and> define_weights gdf = Inr W \<longrightarrow>
      (\<exists>out. optimize S (Some solve) gdf = Inr out \<and>
             get_column (table out) ''keep'' =
               Some (map (\<lambda>i. IntV (if solution_value (solve (snd (mwis_model (len gdf) W
                        (replicate (len gdf) [])))) i > 0.5 then 1 else 0)) [0..<len gdf]))) \<and>
   (optimize S backend gdf = Inl e \<longleftrightarrow> optimize S' backend gdf = Inl e)"
proof (intro conjI impI)
  assume "S \<le> 0"
  then show "build_conflict_graph S coords = replicate (length coords) []"
    by (rule build_nonpositive)
next
  assume a: "S \<le> 0 \<and> define_weights gdf = Inr W"
  then have nb: "build_conflict_graph S (coords_of gdf) = replicate (len gdf) []"
    by (simp add: build_nonpositive)
  from a show "\<exists>out. optimize S (Some solve) gdf = Inr out \<and>
             get_column (table out) ''keep'' =
               Some (map (\<lambda>i. IntV (if solution_value (solve (snd (mwis_model (len gdf) W
                        (replicate (len gdf) [])))) i > 0.5 then 1 else 0)) [0..<len gdf])"
    by (simp add: optimize_result nb Let_def get_column_save_flags_keep keep_flags_def)
next
  show "optimize S backend gdf = Inl e \<longleftrightarrow> optimize S' backend gdf = Inl e"
    by (rule optimize_Inl_threshold)
qed

theorem no_precondition_checks_witness:
  "(- 1::real) \<le> 0 \<and> define_weights two_trees = Inr [3, 5] \<and>
   build_conflict_graph (- 1) (coords_of two_trees) = [[], []] \<and>
   keep_column (optimize (- 1) (Some (answer OPTIMAL (\<lambda>v. 1))) two_trees) =
     Some [IntV 1, IntV 1] \<and>
   optimize (- 1) None two_trees = Inl (Exception ''Could not create CBC solver.'') \<and>
   optimize 10 None two_trees = Inl (Exception ''Could not create CBC solver.'')"
proof -
  have w: "define_weights two_trees = Inr [3, 5]"
    by (rule weights_two_trees)
  have e: "optimize (- 1) None two_trees = Inl (Exception ''Could not create CBC solver.'')"
    by (rule optimize_None [OF w])
  from no_precondition_checks [of "- 1" "coords_of two_trees" two_trees "[3, 5]"
      "answer OPTIMAL (\<lambda>v. 1)" None "Exception ''Could not create CBC solver.''" 10] w e
  have "build_conflict_graph (- 1) (coords_of two_trees) = [[], []]"
    and "optimize 10 None two_trees = Inl (Exception ''Could not create CBC solver.'')"
    by (simp_all add: len_two_trees numeral_2_eq_2)
  with w e show ?thesis
    by (simp add: optimize_two_trees get_column_def)
qed

text \<open>With the threshold -1 (and with 0) the script builds an empty graph, keeps both
  trees and finishes without an exception.\<close>

theorem validation_counterexample:
  "build_conflict_graph (- 1) (coords_of two_trees) = [[], []] \<and>
   keep_column (optimize (- 1) (Some (answer OPTIMAL (\<lambda>v. 1))) two_trees) =
     Some [IntV 1, IntV 1] \<and>
   raised (run (- 1) (Some (answer OPTIMAL (\<lambda>v. 1))) two_trees) = None \<and>
   raised (run 0 (Some (answer OPTIMAL (\<lambda>v. 1))) two_trees) = None"
  by (simp add: build_nonpositive len_two_trees numeral_2_eq_2 optimize_two_trees run_def
      export_raised has_column_def get_column_def)

text \<open>
  C9, as amended. A table without rows gives no conflict pair and an empty \<open>keep\<close>
  column. A table with one row gives no conflict pair and a model without constraints;
  its \<open>keep\<close> flag is 1 when the solver's answer is optimal and the weight is positive,
  and 0 when the answer is optimal and the weight is negative.
\<close>

theorem boundary_inputs:
  assumes W: "define_weights gdf = Inr W"
      and lenW: "length W = len gdf"
      and m: "mwis_model (len gdf) W (build_conflict_graph S (coords_of gdf)) = (y, s)"
      and out: "optimize S (Some solve) gdf = Inr out"
      and keep: "get_column (table out) ''keep'' = Some keep"
  shows "(len gdf = 0 \<longrightarrow>
            conflict_pairs (build_conflict_graph S (coords_of gdf)) = [] \<and> keep = []) \<and>
         (len gdf = 1 \<longrightarrow>
            conflict_pairs (build_conflict_graph S (coords_of gdf)) = [] \<and>
            constraints s = [] \<and>
            (optimal s (solution_value (solve s)) \<and> 0 < W ! 0 \<longrightarrow> keep = [IntV 1]) \<and>
            (optimal s (solution_value (solve s)) \<and> W ! 0 < 0 \<longrightarrow> keep = [IntV 0]))"
proof (intro conjI impI)
  let ?val = "solution_value (solve s)"
  from m have y: "y = [0..<len gdf]" by (auto simp: mwis_model_eq)
  from out keep have k: "keep = map IntV (keep_flags (len gdf) [0..<len gdf] ?val)"
    by (auto simp: optimize_Some [OF W m] get_column_save_flags_keep y)
  {
    assume 0: "len gdf = 0"
    then have "coords_of gdf = []" by (simp add: coords_of_def len_def)
    then show "conflict_pairs (build_conflict_graph S (coords_of gdf)) = []" by simp
    from 0 k show "keep = []" by (simp add: keep_flags_def)
  }
  {
    assume 1: "len gdf = 1"
    then obtain p where c: "coords_of gdf = [p]"
      by (cases "coords_of gdf") (simp_all add: length_coords_of [symmetric] del: length_coords_of)
    from 1 lenW obtain w where w: "W = [w]"
      by (cases W) simp_all
    from c show "conflict_pairs (build_conflict_graph S (coords_of gdf)) = []" by simp
    from m c 1 w have s: "s = snd (mwis_model (Suc 0) [w] [[]])" by simp
    then show "constraints s = []" by (simp add: model_one_tree)
    from 1 k have k1: "keep = [IntV (if ?val 0 > 0.5 then 1 else 0)]"
      by (simp add: keep_flags_def)
    {
      assume "optimal s ?val \<and> 0 < W ! 0"
      then have "(?val 0 = 0 \<or> ?val 0 = 1) \<and> w \<le> w * ?val 0" "0 < w"
        by (simp_all add: s w optimal_one_tree)
      then have "?val 0 = 1" by auto
      with k1 show "keep = [IntV 1]" by simp
    }
    {
      assume "optimal s ?val \<and> W ! 0 < 0"
      then have "(?val 0 = 0 \<or> ?val 0 = 1) \<and> 0 \<le> w * ?val 0" "w < 0"
        by (simp_all add: s w optimal_one_tree)
      then have "?val 0 = 0" by auto
      with k1 show "keep = [IntV 0]" by simp
    }
  }
qed

theorem boundary_inputs_witness:
  "define_weights (one_tree 5) = Inr [5] \<and> len (one_tree 5) = 1 \<and>
   conflict_pairs (build_conflict_graph 10 (coords_of (one_tree 5))) = [] \<and>
   optimal (snd (mwis_model (len (one_tree 5)) [5]
              (build_conflict_graph 10 (coords_of (one_tree 5))))) (\<lambda>v. 1) \<and>
   keep_column (optimize 10 (Some (answer OPTIMAL (\<lambda>v. 1))) (one_tree 5)) = Some [IntV 1] \<and>
   define_weights no_trees = Inr [] \<and> len no_trees = 0 \<and>
   conflict_pairs (build_conflict_graph 10 (coords_of no_trees)) = [] \<and>
   keep_column (optimize 10 (Some (answer OPTIMAL (\<lambda>v. 0))) no_trees) = Some []"
proof -
  let ?e1 = "answer OPTIMAL (\<lambda>v. 1)" and ?e0 = "answer OPTIMAL (\<lambda>v. 0)"
  let ?m1 = "mwis_model (len (one_tree 5)) [5] (build_conflict_graph 10 (coords_of (one_tree 5)))"
  let ?m0 = "mwis_model (len no_trees) [] (build_conflict_graph 10 (coords_of no_trees))"
  have w1: "define_weights (one_tree 5) = Inr [5]"
    and w0: "define_weights no_trees = Inr []"
    by (simp_all add: define_weights_def get_column_def)
  have l1: "length [5::real] = len (one_tree 5)" and l0: "length ([]::real list) = len no_trees"
    by (simp_all add: len_def)
  have m1: "?m1 = (fst ?m1, snd ?m1)" and m0: "?m0 = (fst ?m0, snd ?m0)"
    by simp_all
  obtain out1 where o1: "optimize 10 (Some ?e1) (one_tree 5) = Inr out1"
    and k1: "get_column (table out1) ''keep'' = Some [IntV 1]"
    by (simp add: optimize_one_tree get_column_def)
  obtain out0 where o0: "optimize 10 (Some ?e0) no_trees = Inr out0"
    and k0: "get_column (table out0) ''keep'' = Some []"
    by (simp add: optimize_no_trees get_column_def)
  have opt: "optimal (snd ?m1) (\<lambda>v. 1)"
    by (simp add: len_def coords_of_def optimal_one_tree)
  from boundary_inputs [OF w1 l1 m1 o1 k1]
  have c1: "conflict_pairs (build_conflict_graph 10 (coords_of (one_tree 5))) = []"
    by (simp add: len_def)
  from boundary_inputs [OF w0 l0 m0 o0 k0]
  have c0: "conflict_pairs (build_conflict_graph 10 (coords_of no_trees)) = []"
    by (simp add: len_def)
  show ?thesis
    using w1 w0 c1 c0 opt o1 k1 o0 k0 by (simp add: len_def)
qed

text \<open>A single tree of weight -1: the only optimal answer sets its variable to 0, and
  the script then stores \<open>keep = 0\<close> for it.\<close>

theorem single_point_counterexample:
  "len (one_tree (- 1)) = 1 \<and>
   define_weights (one_tree (- 1)) = Inr [- 1] \<and>
   optimal (snd (mwis_model (len (one_tree (- 1))) [- 1]
              (build_conflict_graph 10 (coords_of (one_tree (- 1)))))) (\<lambda>v. 0) \<and>
   \<not> optimal (snd (mwis_model (len (one_tree (- 1))) [- 1]
              (build_conflict_graph 10 (coords_of (one_tree (- 1)))))) (\<lambda>v. 1) \<and>
   optimize 10 (Some (answer OPTIMAL (\<lambda>v. 0))) (one_tree (- 1)) =
     Inr \<lparr>table = (one_tree (- 1))\<lparr>columns := columns (one_tree (- 1)) @
              [(''keep'', [IntV 0]), (''remove'', [BoolV True])]\<rparr>,
          solver_status = OPTIMAL,
          console = [Optimal_found 0]\<rparr>"
  by (simp add: optimize_one_tree define_weights_def get_column_def len_def
      coords_of_def optimal_one_tree)

text \<open>
  C10. The export needs the three columns \<open>H\<close>, \<open>H_m\<close> and \<open>W\<close>. The optimisation
  succeeds exactly when the solver could be created and the column the weights are taken
  from (\<open>W\<close>, or \<open>H_m\<close> when there is no \<open>W\<close>) exists and converts to numbers; for a table
  whose cells all convert, that is: exactly when the table has \<open>W\<close> or \<open>H_m\<close>. Whenever it
  succeeds, the GeoJSON file is written, and the CSV export raises a KeyError naming the
  missing ones among \<open>H\<close>, \<open>H_m\<close>, \<open>W\<close> unless all three are present. So a table with
  only \<open>W\<close> passes the optimisation and fails at the export.
\<close>

theorem export_needs_all_columns:
  "((\<exists>out. optimize S backend gdf = Inr out) \<longleftrightarrow>
      (\<exists>col. weight_column gdf = Some col \<and> list_all convertible col) \<and> backend \<noteq> None) \<and>
   (list_all (\<lambda>(n, col). list_all convertible col) (columns gdf) \<longrightarrow>
      ((\<exists>out. optimize S backend gdf = Inr out) \<longleftrightarrow>
         (has_column gdf ''W'' \<or> has_column gdf ''H_m'') \<and> backend \<noteq> None)) \<and>
   (\<forall>out. optimize S backend gdf = Inr out \<longrightarrow>
      raised (run S backend gdf) =
        (if has_column gdf ''H'' \<and> has_column gdf ''H_m'' \<and> has_column gdf ''W'' then None
         else Some (KeyError (filter (\<lambda>n. \<not> has_column gdf n) [''H'', ''H_m'', ''W'']))) \<and>
      output_geojson (run S backend gdf) = Some (table out) \<and>
      (output_csv (run S backend gdf) = None \<longleftrightarrow>
         \<not> (has_column gdf ''H'' \<and> has_column gdf ''H_m'' \<and> has_column gdf ''W'')))"
proof (intro conjI allI impI)
  show 1: "(\<exists>out. optimize S backend gdf = Inr out) \<longleftrightarrow>
      (\<exists>col. weight_column gdf = Some col \<and> list_all convertible col) \<and> backend \<noteq> None"
    by (simp only: optimize_Inr_iff define_weights_Inr_iff)
  assume "list_all (\<lambda>(n, col). list_all convertible col) (columns gdf)"
  then have "(\<exists>col. weight_column gdf = Some col \<and> list_all convertible col) \<longleftrightarrow>
      (\<exists>col. weight_column gdf = Some col)"
    using weight_column_convertible by blast
  then show "(\<exists>out. optimize S backend gdf = Inr out) \<longleftrightarrow>
         (has_column gdf ''W'' \<or> has_column gdf ''H_m'') \<and> backend \<noteq> None"
    by (simp only: 1 weight_column_Some_iff)
next
  fix out
  assume out: "optimize S backend gdf = Inr out"
  then obtain flags where t: "table out = save_flags flags gdf"
    using table_of_optimize by blast
  show r: "raised (run S backend gdf) =
        (if has_column gdf ''H'' \<and> has_column gdf ''H_m'' \<and> has_column gdf ''W'' then None
         else Some (KeyError (filter (\<lambda>n. \<not> has_column gdf n) [''H'', ''H_m'', ''W''])))"
    by (simp add: run_Inr [OF out] export_raised t has_column_save_flags Let_def)
  show "output_geojson (run S backend gdf) = Some (table out)"
    by (simp add: run_Inr [OF out] export_outputs)
  show "output_csv (run S backend gdf) = None \<longleftrightarrow>
         \<not> (has_column gdf ''H'' \<and> has_column gdf ''H_m'' \<and> has_column gdf ''W'')"
    using r by (simp add: run_Inr [OF out] export_outputs split: if_splits)
qed

theorem export_needs_all_columns_witness:
  "(\<exists>out. optimize 10 (Some (answer OPTIMAL (\<lambda>v. 1))) (one_tree 5) = Inr out) \<and>
   raised (run 10 (Some (answer OPTIMAL (\<lambda>v. 1))) (one_tree 5)) =
     Some (KeyError [''H'', ''H_m'']) \<and>
   output_csv (run 10 (Some (answer OPTIMAL (\<lambda>v. 1))) (one_tree 5)) = None"
  using export_needs_all_columns [of 10 "Some (answer OPTIMAL (\<lambda>v. 1))" "one_tree 5"]
  by (simp add: has_column_def optimize_one_tree)

end
